theory Spec2Isabelle
  imports Complex_Main "HOL-Library.Word"
begin

unbundle bit_operations_syntax

section \<open>Inverse perspective mapping node: data model\<close>

text \<open>
  The node \<open>IPM\<close> of \<open>semantic_grid_mapping.py\<close> warps every camera image onto the
  ground plane and stitches the warped views into one bird's-eye-view image.

  Images are numpy arrays of shape (height, width, 3) and dtype uint8: a list of rows,
  each row a list of pixels, each pixel its three channels (b, g, r) as 8-bit words.
  Matrices are two-dimensional numpy arrays of float64, read here as lists of rows over
  the real numbers: float64 arithmetic is idealised as exact arithmetic.
\<close>

type_synonym pixel = "8 word \<times> 8 word \<times> 8 word"
type_synonym image = "pixel list list"
type_synonym mask = "8 word list list"
type_synonym vec = "real list"
type_synonym mat = "real list list"

text \<open>The exceptions that the statements of the node can raise.\<close>

datatype error =
    IndexError
  | ValueError
  | AttributeError
  | ZeroDivisionError
  | LinAlgError
  | TransformException
  | CvError

text \<open>The dictionary \<open>self.config\<close>, with the five keys that \<open>load_parameters\<close> stores.\<close>

record config =
  px_per_m :: int
  output_width :: int
  output_height :: int
  shift_x :: real
  shift_y :: real

text \<open>
  The result of \<open>tfBuffer.lookup_transform\<close>: a rotation quaternion (x, y, z, w) and a
  translation (x, y, z).
\<close>

record transform =
  rot_x :: real
  rot_y :: real
  rot_z :: real
  rot_w :: real
  trans_x :: real
  trans_y :: real
  trans_z :: real

text \<open>
  The synchronizer calls \<open>compute_bev\<close> with alternating \<open>Image\<close> and \<open>CameraInfo\<close>
  messages. Both carry \<open>header.frame_id\<close>; an image message carries its pixel buffer
  (what \<open>cv_bridge\<close> decodes to bgr8), a camera info message the flattened intrinsic
  matrix \<open>k\<close>.
\<close>

datatype msg =
    Image_msg string image
  | CameraInfo_msg string "real list"

text \<open>
  The library calls whose results depend on floating-point geometry or on the state
  of the transform buffer are parameters of the model: the transform lookup (target
  frame, source frame, at time 0), \<open>tf_transformations.euler_from_quaternion\<close>,
  \<open>cv2.warpPerspective\<close> (source image, matrix, (width, height)), and what
  \<open>np.linalg.inv\<close> does with a matrix that is singular in exact arithmetic and has no
  zero row: there the rounding of the LU factorisation decides whether a pivot is
  exactly zero, so that \<open>LinAlgError\<close> is raised, or whether some matrix is returned.
\<close>

record env =
  lookup_transform :: "string \<Rightarrow> string \<Rightarrow> error + transform"
  euler_from_quaternion :: "real list \<Rightarrow> real \<times> real \<times> real"
  warpPerspective :: "image \<Rightarrow> mat \<Rightarrow> int \<times> int \<Rightarrow> error + image"
  inv_singular :: "mat \<Rightarrow> error + mat"

text \<open>
  The attributes of the node that \<open>compute_bev\<close> reads, and the images it has handed to
  the publisher of \<open>/BEV_image\<close>, oldest first.
\<close>

record node =
  vehicle_base_link :: string
  node_config :: config
  published :: "image list"

section \<open>load\_parameters\<close>

text \<open>
  \<open>load_parameters\<close> reads the three integer parameters and derives the shift:
  \<open>config["shift_x"] = config["output_width"] / 2.0\<close>, likewise for y.
\<close>

definition load_parameters :: "string \<Rightarrow> int \<Rightarrow> int \<Rightarrow> int \<Rightarrow> node" where
  "load_parameters base_link ppm width height =
     \<lparr> vehicle_base_link = base_link,
       node_config = \<lparr> px_per_m = ppm, output_width = width, output_height = height,
                       shift_x = real_of_int width / 2, shift_y = real_of_int height / 2 \<rparr>,
       published = [] \<rparr>"

section \<open>Matrices\<close>

text \<open>
  \<open>A.dot(B)\<close> for two-dimensional arrays: rows of \<open>A\<close> against columns of \<open>B\<close>. The
  shapes of the arrays that the node multiplies always agree (3x3 by 3x3, 4x3 by 3x3,
  3x3 by 3x4, 3x4 by 4x3), so the \<open>ValueError\<close> of numpy for shapes that do not is no case here.
\<close>

definition dot :: "mat \<Rightarrow> mat \<Rightarrow> mat" where
  "dot A B = map (\<lambda>row. map (\<lambda>col. sum_list (map2 (*) row col)) (transpose B)) A"

text \<open>
  The product of a matrix with a column vector, the 3x3 identity and the determinant of
  a 3x3 matrix: they say where a matrix sends a point and when it can be inverted.
\<close>

definition matvec :: "mat \<Rightarrow> vec \<Rightarrow> vec" where
  "matvec A v = map (\<lambda>row. sum_list (map2 (*) row v)) A"

definition identity3 :: mat where
  "identity3 = [[1, 0, 0], [0, 1, 0], [0, 0, 1]]"

fun det3 :: "mat \<Rightarrow> real" where
  "det3 [[a, b, c], [d, e, f], [g, h, i]] =
     a * (e * i - f * h) - b * (d * i - f * g) + c * (d * h - e * g)"
| "det3 _ = 0"

text \<open>A matrix with a row of zeros.\<close>

definition has_zero_row :: "mat \<Rightarrow> bool" where
  "has_zero_row A = list_ex (list_all (\<lambda>x. x = 0)) A"

text \<open>
  \<open>np.linalg.inv\<close> on the 3x3 arrays that the node passes to it (\<open>K\<close> is reshaped to
  3x3 and \<open>M\<close> has three columns). For a matrix that is not singular it returns the
  inverse, here the adjugate divided by the determinant. It raises \<open>LinAlgError\<close> when
  the LU factorisation with partial pivoting meets a pivot that is exactly zero. A
  matrix with a zero row always does: the row is never chosen as a pivot row while
  another candidate is not zero, its multipliers are zero, and it stays zero until it
  is the last candidate. For the other matrices that are singular in exact arithmetic
  the outcome depends on rounding (\<open>[[3, 1, -5], [3, 0, -3], [1, 0, -1]]\<close> is inverted
  without an exception) and is the parameter \<open>inv_singular\<close>. An array of another
  shape does not occur; the last equation sends it to \<open>LinAlgError\<close>, as numpy does for
  an array that is not square.
\<close>

fun linalg_inv :: "env \<Rightarrow> mat \<Rightarrow> error + mat" where
  "linalg_inv env [[a, b, c], [d, e, f], [g, h, i]] =
     (let dt = det3 [[a, b, c], [d, e, f], [g, h, i]] in
      if dt \<noteq> 0
      then Inr [[(e * i - f * h) / dt, (c * h - b * i) / dt, (b * f - c * e) / dt],
                [(f * g - d * i) / dt, (a * i - c * g) / dt, (c * d - a * f) / dt],
                [(d * h - e * g) / dt, (b * g - a * h) / dt, (a * e - b * d) / dt]]
      else if has_zero_row [[a, b, c], [d, e, f], [g, h, i]] then Inl LinAlgError
      else inv_singular env [[a, b, c], [d, e, f], [g, h, i]])"
| "linalg_inv env _ = Inl LinAlgError"

text \<open>\<open>np.reshape(k, (3, 3))\<close> of a flat array: row-major, \<open>ValueError\<close> unless it has 9 elements.\<close>

fun reshape33 :: "real list \<Rightarrow> error + mat" where
  "reshape33 [a, b, c, d, e, f, g, h, i] = Inr [[a, b, c], [d, e, f], [g, h, i]]"
| "reshape33 _ = Inl ValueError"

text \<open>\<open>np.column_stack([R, t])\<close> appends \<open>t\<close> as a last column; \<open>np.row_stack\<close> appends a row.\<close>

definition column_stack :: "mat \<Rightarrow> vec \<Rightarrow> mat" where
  "column_stack R t = map2 (\<lambda>row ti. row @ [ti]) R t"

definition row_stack :: "mat \<Rightarrow> vec \<Rightarrow> mat" where
  "row_stack E r = E @ [r]"

section \<open>Image operations\<close>

text \<open>\<open>np.zeros((h, w, 3), np.uint8)\<close>: a negative dimension raises \<open>ValueError\<close>.\<close>

definition np_zeros :: "int \<Rightarrow> int \<Rightarrow> error + image" where
  "np_zeros h w =
     (if h < 0 \<or> w < 0 then Inl ValueError
      else Inr (replicate (nat h) (replicate (nat w) (0, 0, 0))))"

text \<open>\<open>image.shape\<close>: the number of rows and the length of a row.\<close>

definition img_height :: "'a list list \<Rightarrow> nat" where
  "img_height img = length img"

definition img_width :: "'a list list \<Rightarrow> nat" where
  "img_width img = (case img of [] \<Rightarrow> 0 | row # _ \<Rightarrow> length row)"

text \<open>\<open>np.zeros(image.shape[:2], dtype="uint8")\<close>, the empty mask.\<close>

definition zeros_mask :: "nat \<Rightarrow> nat \<Rightarrow> mask" where
  "zeros_mask h w = replicate h (replicate w 0)"

text \<open>
  \<open>cv2.rectangle(img, pt1, pt2, color, -1)\<close>: the filled rectangle with the opposite
  corners \<open>pt1 = (x1, y1)\<close> and \<open>pt2 = (x2, y2)\<close>, both inside it, clipped to the array.
\<close>

definition rectangle :: "mask \<Rightarrow> int \<times> int \<Rightarrow> int \<times> int \<Rightarrow> 8 word \<Rightarrow> mask" where
  "rectangle m pt1 pt2 color =
     map (\<lambda>(y, row).
            map (\<lambda>(x, v).
                   if min (fst pt1) (fst pt2) \<le> int x \<and> int x \<le> max (fst pt1) (fst pt2) \<and>
                      min (snd pt1) (snd pt2) \<le> int y \<and> int y \<le> max (snd pt1) (snd pt2)
                   then color else v)
                (enumerate 0 row))
         (enumerate 0 m)"

text \<open>
  \<open>cv2.bitwise_and(src1, src2, mask=mask)\<close> into a fresh destination: the conjunction
  of the two sources where the mask is not zero, zero elsewhere.
\<close>

fun pixel_and :: "pixel \<Rightarrow> pixel \<Rightarrow> pixel" where
  "pixel_and (b1, g1, r1) (b2, g2, r2) = (b1 AND b2, g1 AND g2, r1 AND r2)"

definition bitwise_and :: "image \<Rightarrow> image \<Rightarrow> mask \<Rightarrow> image" where
  "bitwise_and src1 src2 m =
     map2 (\<lambda>(row1, row2) mrow.
             map2 (\<lambda>(p, q) mv. if mv \<noteq> 0 then pixel_and p q else (0, 0, 0))
                  (zip row1 row2) mrow)
          (zip src1 src2) m"

text \<open>Lines 92 to 96 of \<open>apply_ipm\<close>: mask the upper half of the image.\<close>

definition mask_upper_half :: "image \<Rightarrow> image" where
  "mask_upper_half img =
     (let input_img_height = img_height img;
          input_img_width = img_width img;
          m = rectangle (zeros_mask input_img_height input_img_width)
                (0, int input_img_height div 2)
                (int input_img_width, int input_img_height) 255
      in bitwise_and img img m)"

text \<open>
  Line 188, \<open>bev_total_img[bev_total_img==(0,0,0)] = output_image[bev_total_img==(0,0,0)]\<close>.
  The comparison of an array of shape (h, w, 3) with the tuple \<open>(0,0,0)\<close> broadcasts over
  the last axis: the boolean array has shape (h, w, 3) and holds, for every channel of
  every pixel, whether that channel is 0. Every such channel is overwritten with the
  channel of the warped view at the same place.
\<close>

definition adjust_channel :: "8 word \<Rightarrow> 8 word \<Rightarrow> 8 word" where
  "adjust_channel b out = (if b = 0 then out else b)"

fun adjust_pixel :: "pixel \<Rightarrow> pixel \<Rightarrow> pixel" where
  "adjust_pixel (b0, b1, b2) (o0, o1, o2) =
     (adjust_channel b0 o0, adjust_channel b1 o1, adjust_channel b2 o2)"

definition overwrite_background :: "image \<Rightarrow> image \<Rightarrow> image" where
  "overwrite_background bev out = map2 (map2 adjust_pixel) bev out"

text \<open>Indexing with a boolean array of another shape raises \<open>IndexError\<close>.\<close>

definition same_shape :: "image \<Rightarrow> image \<Rightarrow> bool" where
  "same_shape a b = (map length a = map length b)"

definition adjust_bev :: "image \<Rightarrow> image \<Rightarrow> error + image" where
  "adjust_bev bev out =
     (if same_shape bev out then Inr (overwrite_background bev out) else Inl IndexError)"

section \<open>apply\_ipm\<close>

definition M_2D_to_3D :: mat where
  "M_2D_to_3D = [[1, 0, 0], [0, 1, 0], [0, 0, 0], [0, 0, 1]]"

definition M_direction :: mat where
  "M_direction = [[1, 0, 0], [0, -1, 0], [0, 0, 1]]"

definition M_shift :: "config \<Rightarrow> mat" where
  "M_shift cfg = [[1, 0, - shift_x cfg], [0, 1, - shift_y cfg], [0, 0, 1]]"

text \<open>\<open>1.0 / px_per_m\<close> with the integer \<open>px_per_m = 0\<close> raises \<open>ZeroDivisionError\<close>.\<close>

definition M_scale :: "config \<Rightarrow> error + mat" where
  "M_scale cfg =
     (if px_per_m cfg = 0 then Inl ZeroDivisionError
      else Inr [[1 / real_of_int (px_per_m cfg), 0, 0],
                [0, 1 / real_of_int (px_per_m cfg), 0],
                [0, 0, 1]])"

text \<open>Line 113: \<open>M = (M_2D_to_3D).dot(M_scale).dot(M_direction.dot(M_shift))\<close>.\<close>

definition ipm_M :: "config \<Rightarrow> error + mat" where
  "ipm_M cfg =
     (case M_scale cfg of
        Inl e \<Rightarrow> Inl e
      | Inr sc \<Rightarrow> Inr (dot (dot M_2D_to_3D sc) (dot M_direction (M_shift cfg))))"

text \<open>
  Lines 98 to 118: \<open>P = K.dot(E[:-1,:])\<close> and \<open>M_ipm = np.linalg.inv(P.dot(M))\<close>.
\<close>

definition ipm_matrix :: "env \<Rightarrow> config \<Rightarrow> mat \<Rightarrow> mat \<Rightarrow> error + mat" where
  "ipm_matrix env cfg K E =
     (case ipm_M cfg of
        Inl e \<Rightarrow> Inl e
      | Inr M \<Rightarrow> (let P = dot K (butlast E) in linalg_inv env (dot P M)))"

definition apply_ipm :: "env \<Rightarrow> config \<Rightarrow> image \<Rightarrow> mat \<Rightarrow> mat \<Rightarrow> error + image" where
  "apply_ipm env cfg img K E =
     (let masked = mask_upper_half img in
      case ipm_matrix env cfg K E of
        Inl e \<Rightarrow> Inl e
      | Inr M_ipm \<Rightarrow>
          warpPerspective env masked M_ipm (output_width cfg, output_height cfg))"

section \<open>compute\_bev\<close>

text \<open>\<open>[(args[i], args[i+1]) for i in range(0, len(args), 2)]\<close>.\<close>

fun images_with_info :: "msg list \<Rightarrow> error + (msg \<times> msg) list" where
  "images_with_info [] = Inr []"
| "images_with_info [a] = Inl IndexError"
| "images_with_info (a # b # rest) =
     (case images_with_info rest of
        Inl e \<Rightarrow> Inl e
      | Inr ps \<Rightarrow> Inr ((a, b) # ps))"

fun header_frame_id :: "msg \<Rightarrow> string" where
  "header_frame_id (Image_msg fid _) = fid"
| "header_frame_id (CameraInfo_msg fid _) = fid"

fun msg_k :: "msg \<Rightarrow> error + real list" where
  "msg_k (CameraInfo_msg _ k) = Inr k"
| "msg_k (Image_msg _ _) = Inl AttributeError"

fun imgmsg_to_cv2 :: "msg \<Rightarrow> error + image" where
  "imgmsg_to_cv2 (Image_msg _ img) = Inr img"
| "imgmsg_to_cv2 (CameraInfo_msg _ _) = Inl AttributeError"

definition Rz :: "real \<Rightarrow> mat" where
  "Rz yaw = [[cos yaw, - sin yaw, 0], [sin yaw, cos yaw, 0], [0, 0, 1]]"

definition Ry :: "real \<Rightarrow> mat" where
  "Ry pitch = [[cos pitch, 0, sin pitch], [0, 1, 0], [- sin pitch, 0, cos pitch]]"

definition Rx :: "real \<Rightarrow> mat" where
  "Rx roll = [[1, 0, 0], [0, cos roll, - sin roll], [0, sin roll, cos roll]]"

text \<open>Lines 141 to 173: the extrinsic matrix \<open>E\<close> of a looked-up transform.\<close>

definition extrinsic :: "env \<Rightarrow> transform \<Rightarrow> mat" where
  "extrinsic env tr =
     (case euler_from_quaternion env [rot_x tr, rot_y tr, rot_z tr, rot_w tr] of
        (roll, pitch, yaw) \<Rightarrow>
          (let R = dot (Rz yaw) (dot (Ry pitch) (Rx roll));
               t = [trans_x tr, trans_y tr, trans_z tr];
               E = column_stack R t
           in row_stack E [0, 0, 0, 1]))"

text \<open>The body of the loop up to the call of \<open>apply_ipm\<close> (lines 137 to 186).\<close>

definition process_view :: "env \<Rightarrow> node \<Rightarrow> msg \<times> msg \<Rightarrow> error + image" where
  "process_view env n p =
     (case p of (image_msg, cam_info_msg) \<Rightarrow>
        (case lookup_transform env (header_frame_id cam_info_msg) (vehicle_base_link n) of
           Inl e \<Rightarrow> Inl e
         | Inr tr \<Rightarrow>
             (let E = extrinsic env tr in
              case msg_k cam_info_msg of
                Inl e \<Rightarrow> Inl e
              | Inr k \<Rightarrow>
                  (case reshape33 k of
                     Inl e \<Rightarrow> Inl e
                   | Inr K \<Rightarrow>
                       (case imgmsg_to_cv2 image_msg of
                          Inl e \<Rightarrow> Inl e
                        | Inr img \<Rightarrow> apply_ipm env (node_config n) img K E)))))"

text \<open>The loop of lines 134 to 188: an exception leaves the loop and the callback.\<close>

fun bev_loop :: "env \<Rightarrow> node \<Rightarrow> image \<Rightarrow> (msg \<times> msg) list \<Rightarrow> error + image" where
  "bev_loop env n bev [] = Inr bev"
| "bev_loop env n bev (p # ps) =
     (case process_view env n p of
        Inl e \<Rightarrow> Inl e
      | Inr output_image \<Rightarrow>
          (case adjust_bev bev output_image of
             Inl e \<Rightarrow> Inl e
           | Inr bev' \<Rightarrow> bev_loop env n bev' ps))"

text \<open>
  \<open>compute_bev\<close>: on success the stitched image is published; an exception
  propagates out of the callback and nothing is published.
\<close>

definition compute_bev :: "env \<Rightarrow> node \<Rightarrow> msg list \<Rightarrow> error + node" where
  "compute_bev env n args =
     (case images_with_info args of
        Inl e \<Rightarrow> Inl e
      | Inr ps \<Rightarrow>
          (case np_zeros (output_height (node_config n)) (output_width (node_config n)) of
             Inl e \<Rightarrow> Inl e
           | Inr bev_total_img \<Rightarrow>
               (case bev_loop env n bev_total_img ps of
                  Inl e \<Rightarrow> Inl e
                | Inr bev \<Rightarrow> Inr (n\<lparr>published := published n @ [bev]\<rparr>))))"

section \<open>Notions used to state the properties\<close>

text \<open>An array with \<open>h\<close> rows of \<open>w\<close> entries each.\<close>

definition has_shape :: "nat \<Rightarrow> nat \<Rightarrow> 'a list list \<Rightarrow> bool" where
  "has_shape h w arr = (length arr = h \<and> (\<forall>row \<in> set arr. length row = w))"

text \<open>The canvas that \<open>compute_bev\<close> starts from.\<close>

definition background :: "nat \<Rightarrow> nat \<Rightarrow> image" where
  "background h w = replicate h (replicate w (0, 0, 0))"

text \<open>
  What the loop of \<open>compute_bev\<close> does with the warped views once they are computed:
  line 188 for each view in turn, in the order of the arguments.
\<close>

definition composite :: "image \<Rightarrow> image list \<Rightarrow> image" where
  "composite bev views = foldl overwrite_background bev views"

subsection \<open>A concrete frame\<close>

text \<open>
  A small setting on which the definitions are evaluated: a canvas one pixel wide and
  two pixels high at one pixel per metre, cameras one metre above the origin of the
  vehicle, no rotation, and a stand-in for the warp that hands back the masked source
  image. The frame \<open>camera_lost\<close> is unknown to the transform buffer. No matrix that
  is inverted below calls for \<open>inv_singular\<close>; the stand-in raises.
\<close>

definition test_env :: env where
  "test_env =
     \<lparr> lookup_transform = (\<lambda>target source.
          if target = ''camera_lost'' then Inl TransformException
          else Inr \<lparr> rot_x = 0, rot_y = 0, rot_z = 0, rot_w = 1,
                     trans_x = 0, trans_y = 0, trans_z = 1 \<rparr>),
       euler_from_quaternion = (\<lambda>q. (0, 0, 0)),
       warpPerspective = (\<lambda>src M dsize. Inr src),
       inv_singular = (\<lambda>A. Inl LinAlgError) \<rparr>"

definition test_node :: node where
  "test_node = load_parameters ''base_link'' 1 1 2"

definition k_identity :: "real list" where
  "k_identity = [1, 0, 0, 0, 1, 0, 0, 0, 1]"

definition k_zero_focal :: "real list" where
  "k_zero_focal = [0, 0, 0, 0, 1, 0, 0, 0, 1]"

definition three_row_image :: image where
  "three_row_image = [[(1, 2, 3)], [(4, 5, 6)], [(7, 8, 9)]]"

definition blue_image :: image where
  "blue_image = [[(7, 7, 7)], [(255, 0, 0)]]"

definition green_image :: image where
  "green_image = [[(7, 7, 7)], [(0, 255, 0)]]"



definition E_above :: mat where
  "E_above = [[1, 0, 0, 0], [0, 1, 0, 0], [0, 0, 1, 1], [0, 0, 0, 1]]"


section \<open>Properties\<close>

subsection \<open>Arrays and the masking of the source image\<close>

lemma has_shape_nth: "has_shape h w arr \<Longrightarrow> r < h \<Longrightarrow> length (arr ! r) = w"
  by (simp add: has_shape_def)

lemma has_shape_eqI:
  assumes "has_shape h w X" "has_shape h w Y"
    and "\<And>r c. r < h \<Longrightarrow> c < w \<Longrightarrow> X ! r ! c = Y ! r ! c"
  shows "X = Y"
proof (rule nth_equalityI)
  show "length X = length Y" using assms(1,2) by (simp add: has_shape_def)
next
  fix r assume "r < length X"
  then have r: "r < h" using assms(1) by (simp add: has_shape_def)
  show "X ! r = Y ! r"
  proof (rule nth_equalityI)
    show "length (X ! r) = length (Y ! r)"
      using has_shape_nth[OF assms(1) r] has_shape_nth[OF assms(2) r] by simp
  next
    fix c assume "c < length (X ! r)"
    then have "c < w" using has_shape_nth[OF assms(1) r] by simp
    then show "X ! r ! c = Y ! r ! c" using assms(3) r by simp
  qed
qed

lemma img_width_has_shape: "has_shape h w img \<Longrightarrow> 0 < h \<Longrightarrow> img_width img = w"
  by (cases img) (auto simp add: has_shape_def img_width_def)

lemma pixel_and_self [simp]: "pixel_and p p = p"
  by (cases p) simp

lemma rectangle_nth:
  assumes "r < length m" "c < length (m ! r)"
  shows "rectangle m pt1 pt2 color ! r ! c =
    (if min (fst pt1) (fst pt2) \<le> int c \<and> int c \<le> max (fst pt1) (fst pt2) \<and>
        min (snd pt1) (snd pt2) \<le> int r \<and> int r \<le> max (snd pt1) (snd pt2)
     then color else m ! r ! c)"
  using assms by (simp add: rectangle_def nth_enumerate_eq)

lemma rectangle_shape: "has_shape h w m \<Longrightarrow> has_shape h w (rectangle m pt1 pt2 color)"
  by (auto simp add: has_shape_def rectangle_def enumerate_eq_zip set_zip)

lemma zeros_mask_shape: "has_shape h w (zeros_mask h w)"
  by (simp add: has_shape_def zeros_mask_def)

lemma bitwise_and_nth:
  assumes "has_shape h w a" "has_shape h w b" "has_shape h w m" "r < h" "c < w"
  shows "bitwise_and a b m ! r ! c =
     (if m ! r ! c \<noteq> 0 then pixel_and (a ! r ! c) (b ! r ! c) else (0, 0, 0))"
  using assms by (simp add: bitwise_and_def has_shape_def)

lemma bitwise_and_shape:
  assumes "has_shape h w a" "has_shape h w b" "has_shape h w m"
  shows "has_shape h w (bitwise_and a b m)"
  using assms by (auto simp add: bitwise_and_def has_shape_def set_zip)

lemma mask_upper_half_shape:
  assumes "has_shape h w img"
  shows "has_shape h w (mask_upper_half img)"
proof (cases "h = 0")
  case True
  then show ?thesis using assms
    by (simp add: has_shape_def mask_upper_half_def img_height_def bitwise_and_def)
next
  case False
  then have w: "img_width img = w" using assms by (simp add: img_width_has_shape)
  have h: "img_height img = h" using assms by (simp add: has_shape_def img_height_def)
  show ?thesis
    unfolding mask_upper_half_def Let_def w h
    by (intro bitwise_and_shape rectangle_shape zeros_mask_shape assms)
qed

lemma mask_upper_half_nth:
  assumes S: "has_shape h w img" and r: "r < h" and c: "c < w"
  shows "mask_upper_half img ! r ! c = (if r < h div 2 then (0, 0, 0) else img ! r ! c)"
proof -
  have w: "img_width img = w" using S r by (simp add: img_width_has_shape)
  have h: "img_height img = h" using S by (simp add: has_shape_def img_height_def)
  let ?m = "rectangle (zeros_mask h w) (0, int h div 2) (int w, int h) 255"
  have m: "has_shape h w ?m" by (intro rectangle_shape zeros_mask_shape)
  have "?m ! r ! c = (if int h div 2 \<le> int r then 255 else 0)"
    using r c by (simp add: rectangle_nth zeros_mask_def)
  moreover have "(int h div 2 \<le> int r) = (h div 2 \<le> r)"
    by (metis of_nat_le_iff of_nat_numeral zdiv_int)
  ultimately have mv: "?m ! r ! c = (if h div 2 \<le> r then 255 else 0)" by simp
  show ?thesis
    unfolding mask_upper_half_def Let_def w h
    using bitwise_and_nth [OF S S m r c] mv by (simp add: not_less)
qed


lemma apply_ipm_masked:
  "mask_upper_half img' = mask_upper_half img \<Longrightarrow>
   apply_ipm env cfg img' K E = apply_ipm env cfg img K E"
  by (simp add: apply_ipm_def)

text \<open>
  Claim C6, amended. Before the warp, \<open>apply_ipm\<close> zeroes every pixel of the rows with
  index below \<open>input_img_height // 2\<close>, the integer quotient, and leaves the other rows
  as they are. The warp is given the masked image only: source
  images of one shape that agree on the rows from \<open>input_img_height // 2\<close> on have the
  same result.
\<close>

theorem upper_half_masked:
  assumes S: "has_shape h w img"
  shows "has_shape h w (mask_upper_half img) \<and>
         (\<forall>r<h. \<forall>c<w. mask_upper_half img ! r ! c =
                          (if r < h div 2 then (0, 0, 0) else img ! r ! c)) \<and>
         (\<forall>img'. has_shape h w img' \<and>
                 (\<forall>r<h. \<forall>c<w. h div 2 \<le> r \<longrightarrow> img' ! r ! c = img ! r ! c) \<longrightarrow>
                 apply_ipm env cfg img' K E = apply_ipm env cfg img K E)"
proof (intro conjI allI impI)
  show "has_shape h w (mask_upper_half img)" by (rule mask_upper_half_shape [OF S])
next
  fix r c assume "r < h" "c < w"
  then show "mask_upper_half img ! r ! c = (if r < h div 2 then (0, 0, 0) else img ! r ! c)"
    by (rule mask_upper_half_nth [OF S])
next
  fix img'
  assume a: "has_shape h w img' \<and>
     (\<forall>r<h. \<forall>c<w. h div 2 \<le> r \<longrightarrow> img' ! r ! c = img ! r ! c)"
  then have S': "has_shape h w img'" by simp
  have "mask_upper_half img' = mask_upper_half img"
  proof (rule has_shape_eqI [of h w])
    fix r c assume rc: "r < h" "c < w"
    show "mask_upper_half img' ! r ! c = mask_upper_half img ! r ! c"
      using a rc by (simp add: mask_upper_half_nth [OF S rc] mask_upper_half_nth [OF S' rc] not_less)
  qed (rule mask_upper_half_shape [OF S'], rule mask_upper_half_shape [OF S])
  then show "apply_ipm env cfg img' K E = apply_ipm env cfg img K E"
    by (rule apply_ipm_masked)
qed

theorem upper_half_masked_witness:
  "mask_upper_half blue_image ! 0 ! 0 = (0, 0, 0) \<and>
   mask_upper_half blue_image ! 1 ! 0 = (255, 0, 0) \<and>
   apply_ipm test_env (node_config test_node) [[(1, 2, 3)], [(255, 0, 0)]] identity3 E_above =
   apply_ipm test_env (node_config test_node) blue_image identity3 E_above"
proof -
  have S: "has_shape 2 1 blue_image" by (simp add: has_shape_def blue_image_def)
  have S': "has_shape 2 1 [[(1, 2, 3)], [(255, 0, 0) :: pixel]]" by (simp add: has_shape_def)
  have agree: "\<forall>r<2. \<forall>c<1. 2 div 2 \<le> r \<longrightarrow>
      [[(1, 2, 3)], [(255, 0, 0) :: pixel]] ! r ! c = blue_image ! r ! c"
    by (auto simp add: blue_image_def less_Suc_eq numeral_2_eq_2)
  have b: "blue_image ! 1 ! 0 = (255, 0, 0)" by (simp add: blue_image_def)
  from upper_half_masked [OF S, of test_env "node_config test_node" identity3 E_above]
  show ?thesis using S' agree b by (simp add: less_Suc_eq numeral_2_eq_2) 
qed

text \<open>
  Claim C6 as stated fails for an image with an odd number of rows. With three rows the
  row of index 1 has an index below 3 / 2, and it is kept: the rectangle of the mask
  starts at row \<open>3 // 2 = 1\<close>.
\<close>

theorem middle_row_is_kept:
  "real 1 < real (img_height three_row_image) / 2 \<and>
   mask_upper_half three_row_image ! 1 ! 0 = (4, 5, 6) \<and>
   mask_upper_half three_row_image ! 1 ! 0 \<noteq> (0, 0, 0)"
  by (simp add: mask_upper_half_def three_row_image_def img_height_def img_width_def
      zeros_mask_def rectangle_def bitwise_and_def enumerate_eq_zip numeral_3_eq_3)

subsection \<open>Stitching\<close>

lemma np_zeros_background: "np_zeros (int h) (int w) = Inr (background h w)"
  by (simp add: np_zeros_def background_def)


lemma overwrite_background_shape:
  "has_shape h w bev \<Longrightarrow> has_shape h w out \<Longrightarrow> has_shape h w (overwrite_background bev out)"
  by (auto simp add: has_shape_def overwrite_background_def set_zip)


lemma adjust_pixel_zero_left [simp]: "adjust_pixel (0, 0, 0) p = p"
  by (cases p) (simp add: adjust_channel_def)

lemma adjust_pixel_zero_right [simp]: "adjust_pixel p (0, 0, 0) = p"
  by (cases p) (simp add: adjust_channel_def)







text \<open>
  Claim C1, at the input where the code departs from it. Two views cover the same
  pixel, the earlier one with (255, 0, 0) and the later one with (0, 255, 0). The mask
  of line 188 is taken per channel, so the channels of the first colour that are 0 are
  overwritten by the second view: the canvas holds (255, 255, 0), a colour of neither
  view. The first equation is the stitching alone, the second the whole callback on a
  frame of two cameras.
\<close>

theorem overlapping_views_mix_channels:
  "composite (background 1 1) [[[(255, 0, 0)]], [[(0, 255, 0)]]] = [[(255, 255, 0)]] \<and>
   compute_bev test_env test_node
     [Image_msg ''front'' blue_image, CameraInfo_msg ''front'' k_identity,
      Image_msg ''rear'' green_image, CameraInfo_msg ''rear'' k_identity] =
   Inr (test_node\<lparr>published := [[[(0, 0, 0)], [(255, 255, 0)]]]\<rparr>)"
  by (simp add: composite_def background_def 
    compute_bev_def process_view_def apply_ipm_def test_env_def test_node_def load_parameters_def
  k_identity_def np_zeros_def adjust_bev_def same_shape_def overwrite_background_def adjust_channel_def
  extrinsic_def Rz_def Ry_def Rx_def dot_def column_stack_def row_stack_def
  ipm_matrix_def ipm_M_def M_scale_def M_2D_to_3D_def M_direction_def M_shift_def Let_def
  mask_upper_half_def blue_image_def green_image_def img_height_def img_width_def zeros_mask_def rectangle_def bitwise_and_def enumerate_eq_zip numeral_2_eq_2 has_zero_row_def)

subsection \<open>Matrices\<close>






















lemma ipm_M_closed':
  assumes "px_per_m cfg \<noteq> 0"
  shows "ipm_M cfg = Inr [[1 / real_of_int (px_per_m cfg), 0, - shift_x cfg * (1 / real_of_int (px_per_m cfg))],
                          [0, - (1 / real_of_int (px_per_m cfg)), shift_y cfg * (1 / real_of_int (px_per_m cfg))],
                          [0, 0, 0],
                          [0, 0, 1]]"
  using assms
  by (simp add: ipm_M_def M_scale_def M_2D_to_3D_def M_direction_def M_shift_def dot_def)

lemma ipm_M_InrD: "ipm_M cfg = Inr M \<Longrightarrow> px_per_m cfg \<noteq> 0"
  by (auto simp add: ipm_M_def M_scale_def split: if_splits)


subsection \<open>The homography\<close>

lemma matvec_ipm_M:
  assumes "ipm_M cfg = Inr M"
  shows "matvec M [u, v, 1] =
     [(u - shift_x cfg) / real_of_int (px_per_m cfg),
      - (v - shift_y cfg) / real_of_int (px_per_m cfg), 0, 1]"
proof -
  have ppm: "px_per_m cfg \<noteq> 0" using assms by (rule ipm_M_InrD)
  show ?thesis
    using assms ipm_M_closed' [OF ppm] by (auto simp add: matvec_def diff_divide_distrib)
qed

text \<open>
  Claim C10. The shift is no parameter of its own: \<open>load_parameters\<close> sets it to
  (output_width / 2, output_height / 2) for every configuration. It is subtracted from
  the canvas pixel coordinates before they are divided by \<open>px_per_m\<close>, so that the
  matrix \<open>M\<close> of line 113 sends the canvas pixel (u, v) to the ground point
  ((u - width / 2) / px_per_m, - (v - height / 2) / px_per_m, 0): the centre of the
  canvas goes to the origin of the vehicle frame, and the centre of the left edge does
  not (unless the canvas has width 0). \<open>M\<close> is built when \<open>px_per_m\<close> is not 0.
\<close>

theorem origin_shift_is_canvas_centre:
  "shift_x (node_config (load_parameters base ppm w h)) = real_of_int w / 2 \<and>
   shift_y (node_config (load_parameters base ppm w h)) = real_of_int h / 2 \<and>
   (ppm \<noteq> 0 \<longrightarrow> (\<exists>M. ipm_M (node_config (load_parameters base ppm w h)) = Inr M)) \<and>
   (\<forall>M. ipm_M (node_config (load_parameters base ppm w h)) = Inr M \<longrightarrow>
        (\<forall>u v. matvec M [u, v, 1] =
                  [(u - real_of_int w / 2) / real_of_int ppm,
                   - (v - real_of_int h / 2) / real_of_int ppm, 0, 1]) \<and>
        matvec M [real_of_int w / 2, real_of_int h / 2, 1] = [0, 0, 0, 1] \<and>
        (w \<noteq> 0 \<longrightarrow> matvec M [0, real_of_int h / 2, 1] \<noteq> [0, 0, 0, 1]))"
proof -
  let ?cfg = "node_config (load_parameters base ppm w h)"
  have sel: "px_per_m ?cfg = ppm" "shift_x ?cfg = real_of_int w / 2"
    "shift_y ?cfg = real_of_int h / 2"
    by (simp_all add: load_parameters_def)
  have built: "ppm \<noteq> 0 \<longrightarrow> (\<exists>M. ipm_M ?cfg = Inr M)"
    using ipm_M_closed' [of ?cfg] by (simp add: sel)
  have maps: "(\<forall>u v. matvec M [u, v, 1] =
                  [(u - real_of_int w / 2) / real_of_int ppm,
                   - (v - real_of_int h / 2) / real_of_int ppm, 0, 1]) \<and>
        matvec M [real_of_int w / 2, real_of_int h / 2, 1] = [0, 0, 0, 1] \<and>
        (w \<noteq> 0 \<longrightarrow> matvec M [0, real_of_int h / 2, 1] \<noteq> [0, 0, 0, 1])"
    if M: "ipm_M ?cfg = Inr M" for M
  proof -
    have ppm: "ppm \<noteq> 0" using ipm_M_InrD [OF M] by (simp add: sel)
    have mv: "matvec M [u, v, 1] =
        [(u - real_of_int w / 2) / real_of_int ppm,
         - (v - real_of_int h / 2) / real_of_int ppm, 0, 1]" for u v
      using matvec_ipm_M [OF M, of u v] by (simp add: sel)
    have "w \<noteq> 0 \<longrightarrow> matvec M [0, real_of_int h / 2, 1] \<noteq> [0, 0, 0, 1]"
      using ppm by (simp add: mv)
    moreover have "matvec M [real_of_int w / 2, real_of_int h / 2, 1] = [0, 0, 0, 1]"
      by (simp add: mv)
    ultimately show ?thesis using mv by blast
  qed
  show ?thesis using sel(2,3) built maps by blast
qed

theorem origin_shift_is_canvas_centre_witness:
  "\<exists>M. ipm_M (node_config (load_parameters ''base_link'' 20 400 600)) = Inr M \<and>
       matvec M [200, 300, 1] = [0, 0, 0, 1] \<and>
       matvec M [0, 300, 1] \<noteq> [0, 0, 0, 1]"
proof -
  have ppm: "(20 :: int) \<noteq> 0" and w: "(400 :: int) \<noteq> 0" by simp_all
  from origin_shift_is_canvas_centre [of "''base_link''" 20 400 600] ppm w
  obtain M where M: "ipm_M (node_config (load_parameters ''base_link'' 20 400 600)) = Inr M"
    by blast
  from origin_shift_is_canvas_centre [of "''base_link''" 20 400 600] M w
  have "matvec M [real_of_int 400 / 2, real_of_int 600 / 2, 1] = [0, 0, 0, 1]"
    and "matvec M [0, real_of_int 600 / 2, 1] \<noteq> [0, 0, 0, 1]"
    by blast+
  with M show ?thesis by auto
qed















subsection \<open>The callback\<close>

lemma same_shape_has_shape:
  "has_shape h w a \<Longrightarrow> has_shape h w b \<Longrightarrow> same_shape a b"
  by (auto simp add: same_shape_def has_shape_def intro: nth_equalityI)

text \<open>
  When every view of the frame is computed and has the shape of the canvas, the loop
  returns the composite of the views in the order of the arguments.
\<close>

lemma bev_loop_composite:
  assumes "list_all2 (\<lambda>p v. process_view env n p = Inr v) ps views"
    and "\<forall>v \<in> set views. has_shape h w v"
    and "has_shape h w bev"
  shows "bev_loop env n bev ps = Inr (composite bev views)"
  using assms
proof (induction ps views arbitrary: bev rule: list_all2_induct)
  case Nil
  then show ?case by (simp add: composite_def)
next
  case (Cons p ps v views)
  from Cons.prems have v: "has_shape h w v" and vs: "\<forall>v \<in> set views. has_shape h w v"
    by simp_all
  have "adjust_bev bev v = Inr (overwrite_background bev v)"
    using same_shape_has_shape [OF Cons.prems(2) v] by (simp add: adjust_bev_def)
  moreover have "has_shape h w (overwrite_background bev v)"
    by (rule overwrite_background_shape [OF Cons.prems(2) v])
  ultimately show ?case
    using Cons.hyps(1) Cons.IH [OF vs] by (simp add: composite_def)
qed

lemma process_view_published [simp]:
  "process_view env (n\<lparr>published := x\<rparr>) p = process_view env n p"
  by (auto simp add: process_view_def Let_def split: prod.splits sum.splits)

lemma bev_loop_published [simp]:
  "bev_loop env (n\<lparr>published := x\<rparr>) bev ps = bev_loop env n bev ps"
  by (induction ps arbitrary: bev) (simp_all split: sum.splits)






lemmas frame_eval =
  compute_bev_def process_view_def apply_ipm_def test_env_def test_node_def load_parameters_def
  k_identity_def k_zero_focal_def np_zeros_def adjust_bev_def same_shape_def
  overwrite_background_def adjust_channel_def
  extrinsic_def Rz_def Ry_def Rx_def dot_def column_stack_def row_stack_def
  ipm_matrix_def ipm_M_def M_scale_def M_2D_to_3D_def M_direction_def M_shift_def Let_def
  mask_upper_half_def blue_image_def green_image_def img_height_def img_width_def
  zeros_mask_def rectangle_def bitwise_and_def enumerate_eq_zip numeral_2_eq_2
  has_zero_row_def




text \<open>
  Claim C9. A run of \<open>compute_bev\<close> that publishes a canvas leaves the node as it was
  but for the published image, and a second run on the same arguments publishes the
  same canvas: the canvas is allocated afresh in every run and depends on nothing a
  previous run has left behind.
\<close>

theorem compute_bev_repeatable:
  assumes "compute_bev env n args = Inr n1"
  shows "\<exists>bev. n1 = n\<lparr>published := published n @ [bev]\<rparr> \<and>
               compute_bev env n1 args = Inr (n1\<lparr>published := published n1 @ [bev]\<rparr>)"
  using assms
  by (auto simp add: compute_bev_def split: sum.splits)

theorem compute_bev_repeatable_witness:
  "\<exists>bev. test_node\<lparr>published := [[[(0, 0, 0)], [(0, 255, 0)]]]\<rparr> =
            test_node\<lparr>published := published test_node @ [bev]\<rparr> \<and>
     compute_bev test_env (test_node\<lparr>published := [[[(0, 0, 0)], [(0, 255, 0)]]]\<rparr>)
       [Image_msg ''rear'' green_image, CameraInfo_msg ''rear'' k_identity] =
     Inr (test_node\<lparr>published := [[[(0, 0, 0)], [(0, 255, 0)]]]\<rparr>
            \<lparr>published := published (test_node\<lparr>published := [[[(0, 0, 0)], [(0, 255, 0)]]]\<rparr>) @ [bev]\<rparr>)"
proof -
  have a: "compute_bev test_env test_node
     [Image_msg ''rear'' green_image, CameraInfo_msg ''rear'' k_identity] =
     Inr (test_node\<lparr>published := [[[(0, 0, 0)], [(0, 255, 0)]]]\<rparr>)"
    by (simp add: frame_eval)
  show ?thesis by (rule compute_bev_repeatable [OF a])
qed


lemma ipm_M_zero: "px_per_m cfg = 0 \<Longrightarrow> ipm_M cfg = Inl ZeroDivisionError"
  by (simp add: ipm_M_def M_scale_def)




end
